theory Spec2Isabelle
  imports Main "HOL-Library.AList"
begin

section \<open>The delivery queue manager of \<^verbatim>\<open>messages/message_manager.py\<close>\<close>

text \<open>
  A shallow embedding of the class \<^verbatim>\<open>MessageManager\<close>. The two SQS queues, the
  scheduler's occurrence table and the two instance attributes \<^verbatim>\<open>messages\<close> and
  \<^verbatim>\<open>sqs_msgs\<close> are the fields of one state record that every method takes and
  returns. Exceptions raised by the methods are values of the type \<open>error\<close>.
  Timestamps are natural numbers: the digits of \<^verbatim>\<open>YYYY-MM-DD hh:mm:ss\<close> read as one
  decimal number, which keeps the order of the dates.
\<close>

subsection \<open>Data\<close>

type_synonym timestamp = nat

datatype queue_ref = MessageQueue | BotQueue

datatype error =
    ValueError string
  | TypeError "string list"
  | KeyError string
  | PersonError

text \<open>
  One entry of an SQS queue as boto3 hands it out: the receipt handle and queue url that
  \<^verbatim>\<open>delete_message\<close> needs, the body, and the message attributes that
  \<^verbatim>\<open>publish_message\<close> writes.
\<close>

record sqs_message =
  receipt_handle :: string
  queue_url :: queue_ref
  sqs_body :: string
  attr_PersonName :: string
  attr_Locations :: string
  attr_ExpirationDateTimeInUtc :: timestamp
  attr_UUID :: string
  attr_NoMoreOccurrences :: string
  attr_Voice :: string
  attr_RequiredBots :: "string option"
  attr_BotNames :: "string option"
  attr_IceBreaker :: "string option"

record queued_message =
  person_name :: string
  uuid_key :: string
  body :: string
  voice_id :: string
  expiration_datetime_in_utc :: timestamp
  no_more_occurrences :: bool

text \<open>
  Modelled from the spec: the class \<^verbatim>\<open>QueuedMessage\<close> of \<^verbatim>\<open>message.py\<close> is not
  part of the source at hand. The spec's Message Record reads its fields from the
  attributes of the queue entry (\<^verbatim>\<open>NoMoreOccurrences\<close> is the string \<^verbatim>\<open>"True"\<close> or
  \<^verbatim>\<open>"False"\<close>), and derives \<^verbatim>\<open>isExpired\<close> as "current time > expiresAtUtc".
\<close>

definition QueuedMessage :: "sqs_message \<Rightarrow> queued_message" where
  "QueuedMessage m =
     \<lparr> person_name = attr_PersonName m,
       uuid_key = attr_UUID m,
       body = sqs_body m,
       voice_id = attr_Voice m,
       expiration_datetime_in_utc = attr_ExpirationDateTimeInUtc m,
       no_more_occurrences = (attr_NoMoreOccurrences m = ''True'') \<rparr>"

definition is_expired :: "timestamp \<Rightarrow> queued_message \<Rightarrow> bool" where
  "is_expired now qm = (now > expiration_datetime_in_utc qm)"

text \<open>
  The occurrence table of the scheduler, one row for each pair of message id and person.
\<close>

record occurrence =
  in_queue :: bool
  last_occurrence :: timestamp
  expired :: bool

type_synonym occurrences = "string \<times> string \<Rightarrow> occurrence"

text \<open>
  Modelled from the spec: the class \<^verbatim>\<open>Scheduler\<close> of \<^verbatim>\<open>scheduler/scheduler.py\<close> is
  not part of the source at hand. The spec gives its three operations as
  \<^verbatim>\<open>setInQueue(id, recipientName, bool)\<close>, \<^verbatim>\<open>updateLastOccurrence(id, recipientName)\<close>
  (sets \<^verbatim>\<open>lastOccurrenceAt = now\<close>) and \<^verbatim>\<open>markExpired(id, recipientName)\<close>
  (sets \<^verbatim>\<open>expired = true\<close>), each touching the row of that pair only.
\<close>

definition update_queue_status :: "string \<Rightarrow> string \<Rightarrow> bool \<Rightarrow> occurrences \<Rightarrow> occurrences" where
  "update_queue_status uuid person flag tab =
     tab((uuid, person) := (tab (uuid, person))\<lparr>in_queue := flag\<rparr>)"

definition update_last_occurrence :: "timestamp \<Rightarrow> string \<Rightarrow> string \<Rightarrow> occurrences \<Rightarrow> occurrences" where
  "update_last_occurrence now uuid person tab =
     tab((uuid, person) := (tab (uuid, person))\<lparr>last_occurrence := now\<rparr>)"

definition set_expired :: "string \<Rightarrow> string \<Rightarrow> occurrences \<Rightarrow> occurrences" where
  "set_expired uuid person tab =
     tab((uuid, person) := (tab (uuid, person))\<lparr>expired := True\<rparr>)"

text \<open>
  The state: the contents of the two queues (\<^verbatim>\<open>self.queue\<close>, \<^verbatim>\<open>self.bot_queue\<close>), the
  dictionary \<^verbatim>\<open>self.messages\<close> from person name to the list of that person's records
  (an association list, read with \<open>map_of\<close>), the list \<^verbatim>\<open>self.sqs_msgs\<close> and the
  scheduler's table. \<^verbatim>\<open>__init__\<close> sets \<^verbatim>\<open>self.messages = {}\<close>; \<^verbatim>\<open>self.sqs_msgs\<close> is
  first assigned by \<^verbatim>\<open>get_messages\<close>, and the model starts it as the empty list.
\<close>

record manager =
  queue :: "sqs_message list"
  bot_queue :: "sqs_message list"
  messages :: "(string \<times> queued_message list) list"
  sqs_msgs :: "sqs_message list"
  scheduler :: occurrences

definition new_manager :: "sqs_message list \<Rightarrow> sqs_message list \<Rightarrow> occurrences \<Rightarrow> manager" where
  "new_manager q bq tab =
     \<lparr> queue = q, bot_queue = bq, messages = [], sqs_msgs = [], scheduler = tab \<rparr>"

subsection \<open>The queue transport\<close>

text \<open>
  Modelled from the spec: the queue itself is the SQS service. A receive "fetches up to
  maxMessages records" and leaves them in the queue until they are deleted by receipt
  handle; the model hands out the oldest ones, and deleting a handle that is no longer
  there changes nothing. Waiting and the visibility window are real time and are not
  part of the model.
\<close>

definition receive_messages :: "nat \<Rightarrow> sqs_message list \<Rightarrow> sqs_message list" where
  "receive_messages max_number_of_messages q = take max_number_of_messages q"

definition delete_message :: "queue_ref \<Rightarrow> string \<Rightarrow> manager \<Rightarrow> manager" where
  "delete_message url handle st =
     (case url of
        MessageQueue \<Rightarrow> st\<lparr>queue := filter (\<lambda>e. receipt_handle e \<noteq> handle) (queue st)\<rparr>
      | BotQueue \<Rightarrow> st\<lparr>bot_queue := filter (\<lambda>e. receipt_handle e \<noteq> handle) (bot_queue st)\<rparr>)"

definition send_message :: "queue_ref \<Rightarrow> sqs_message \<Rightarrow> manager \<Rightarrow> manager" where
  "send_message url m st =
     (case url of
        MessageQueue \<Rightarrow> st\<lparr>queue := queue st @ [m\<lparr>queue_url := MessageQueue\<rparr>]\<rparr>
      | BotQueue \<Rightarrow> st\<lparr>bot_queue := bot_queue st @ [m\<lparr>queue_url := BotQueue\<rparr>]\<rparr>)"

subsection \<open>\<^verbatim>\<open>get_messages\<close>\<close>

text \<open>
  The body of the \<^verbatim>\<open>for m in messages\<close> loop, lines 121 to 137. A record for another
  person is skipped (\<^verbatim>\<open>continue\<close>). The first record that is not skipped is appended to
  its person's list in \<^verbatim>\<open>self.messages\<close>, to \<^verbatim>\<open>self.sqs_msgs\<close> and to \<^verbatim>\<open>msgs\<close>, its
  queue status is written as \<^verbatim>\<open>False\<close>, and \<^verbatim>\<open>return msgs\<close>, which stands inside the
  loop, ends the call. When the loop runs out the method returns \<^verbatim>\<open>None\<close>.
\<close>

definition add_message :: "queued_message \<Rightarrow> (string \<times> queued_message list) list
    \<Rightarrow> (string \<times> queued_message list) list" where
  "add_message qm d =
     (let d1 = (if map_of d (person_name qm) = None
                then AList.update (person_name qm) [] d else d)
      in AList.update (person_name qm) (the (map_of d1 (person_name qm)) @ [qm]) d1)"

fun get_messages_loop :: "string \<Rightarrow> sqs_message list \<Rightarrow> queued_message list \<Rightarrow> manager
    \<Rightarrow> queued_message list option \<times> manager" where
  "get_messages_loop pname [] msgs st = (None, st)"
| "get_messages_loop pname (m # ms) msgs st =
     (let qm = QueuedMessage m in
      if pname \<noteq> [] \<and> \<not> person_name qm = pname
      then get_messages_loop pname ms msgs st
      else (Some (msgs @ [qm]),
            st\<lparr> messages := add_message qm (messages st),
                sqs_msgs := sqs_msgs st @ [m],
                scheduler := update_queue_status (uuid_key qm) (person_name qm) False
                               (scheduler st) \<rparr>))"

text \<open>
  The keyword arguments are \<^verbatim>\<open>PersonName\<close> (default \<^verbatim>\<open>''\<close>), \<^verbatim>\<open>MessageType\<close> (default
  \<^verbatim>\<open>'Message'\<close>) and \<^verbatim>\<open>MaxNumberOfMessages\<close> (default 10); \<^verbatim>\<open>WaitTimeSeconds\<close> only
  bounds the wait of the transport.
\<close>

definition get_messages :: "string \<Rightarrow> string \<Rightarrow> nat \<Rightarrow> manager
    \<Rightarrow> queued_message list option \<times> manager" where
  "get_messages pname message_type max_number_of_messages st =
     (let st1 = st\<lparr>sqs_msgs := []\<rparr>;
          q = (if message_type = ''Message'' then queue st1 else bot_queue st1);
          fetched = receive_messages max_number_of_messages q
      in if length fetched > 0 then get_messages_loop pname fetched [] st1
         else (None, st1))"

subsection \<open>\<^verbatim>\<open>delete_sqs_msgs\<close>, \<^verbatim>\<open>fail_messages\<close>, \<^verbatim>\<open>succeed_messages\<close>, \<^verbatim>\<open>reset\<close>\<close>

definition delete_sqs_msgs :: "manager \<Rightarrow> manager" where
  "delete_sqs_msgs st =
     fold (\<lambda>m. delete_message (queue_url m) (receipt_handle m)) (sqs_msgs st) st"

definition fail_step :: "sqs_message \<Rightarrow> manager \<Rightarrow> manager" where
  "fail_step m st =
     (let qm = QueuedMessage m in
      st\<lparr>scheduler := update_queue_status (uuid_key qm) (person_name qm) False (scheduler st)\<rparr>)"

definition fail_messages :: "bool \<Rightarrow> manager \<Rightarrow> manager" where
  "fail_messages dont_delete st =
     (if dont_delete then st
      else delete_sqs_msgs (fold fail_step (sqs_msgs st) st))"

definition succeed_step :: "timestamp \<Rightarrow> sqs_message \<Rightarrow> manager \<Rightarrow> manager" where
  "succeed_step now m st =
     (let qm = QueuedMessage m;
          t1 = update_last_occurrence now (uuid_key qm) (person_name qm) (scheduler st);
          t2 = update_queue_status (uuid_key qm) (person_name qm) False t1;
          t3 = (if no_more_occurrences qm
                then set_expired (uuid_key qm) (person_name qm) t2 else t2)
      in st\<lparr>scheduler := t3\<rparr>)"

definition succeed_messages :: "bool \<Rightarrow> timestamp \<Rightarrow> manager \<Rightarrow> manager" where
  "succeed_messages dont_delete now st =
     (if dont_delete then st
      else delete_sqs_msgs (fold (succeed_step now) (sqs_msgs st) st))"

definition reset :: "manager \<Rightarrow> manager" where
  "reset st =
     (let st1 = snd (get_messages [] ''Bot'' 10 st);
          st2 = fail_messages False st1;
          st3 = delete_sqs_msgs st2;
          st4 = snd (get_messages [] ''Message'' 10 st3);
          st5 = fail_messages False st4
      in delete_sqs_msgs st5)"

subsection \<open>\<^verbatim>\<open>write_speech\<close>\<close>

text \<open>
  The loop of lines 147 to 149 appends one paragraph for each record that is not expired.
\<close>

definition speech_step :: "timestamp \<Rightarrow> queued_message \<Rightarrow> string \<Rightarrow> string" where
  "speech_step now m speech =
     (if \<not> is_expired now m then speech @ ''<p>'' @ body m @ ''</p>'' else speech)"

text \<open>
  \<^verbatim>\<open>SpeechHelper.replace_tokens\<close> is not part of the source at hand and is the parameter
  \<open>replace_tokens\<close>, applied to the person's name and the markup. After the loop the
  variable \<^verbatim>\<open>m\<close> is still bound to the last record of the person's list, and
  \<^verbatim>\<open>m.voice_id\<close> is returned. The pair \<^verbatim>\<open>(None, None)\<close> is the result \<open>None\<close>.
  \<^verbatim>\<open>self.messages[person_name]\<close> raises \<^verbatim>\<open>KeyError\<close> for a name that is not a key.
\<close>

definition write_speech :: "(string \<Rightarrow> string \<Rightarrow> string) \<Rightarrow> timestamp \<Rightarrow> string \<Rightarrow> manager
    \<Rightarrow> (error + (string \<times> string) option) \<times> manager" where
  "write_speech replace_tokens now pname st =
     (let st1 = snd (get_messages pname ''Message'' 10 st) in
      if length (messages st1) = 0 then (Inr None, st1)
      else case map_of (messages st1) pname of
             None \<Rightarrow> (Inl (KeyError pname), st1)
           | Some person_msgs \<Rightarrow>
               (let speech = fold (speech_step now) person_msgs ''<speak>'' in
                if speech = ''<speak>'' then (Inr None, st1)
                else (Inr (Some (voice_id (last person_msgs),
                                 replace_tokens pname (speech @ ''</speak>''))), st1)))"

subsection \<open>\<^verbatim>\<open>publish_message\<close>\<close>

text \<open>
  The keyword arguments of \<^verbatim>\<open>publish_message\<close>; \<open>None\<close> is a keyword that was not
  passed, and \<open>kw_other\<close> lists the names of the keywords the method does not know.
\<close>

record publish_kwargs =
  kw_ExpirationDateTimeInUtc :: "timestamp option"
  kw_Body :: "string option"
  kw_UUID :: "string option"
  kw_NoMoreOccurrences :: "bool option"
  kw_PersonName :: "string option"
  kw_BotNames :: "string option"
  kw_RequiredBots :: "string option"
  kw_IceBreaker :: "string option"
  kw_VoiceId :: "string option"
  kw_other :: "string list"

definition pop :: "'a option \<Rightarrow> 'a \<Rightarrow> 'a" where
  "pop v dflt = (case v of None \<Rightarrow> dflt | Some x \<Rightarrow> x)"

definition truthy :: "string option \<Rightarrow> bool" where
  "truthy v = (case v of None \<Rightarrow> False | Some s \<Rightarrow> s \<noteq> [])"

definition str_bool :: "bool \<Rightarrow> string" where
  "str_bool b = (if b then ''True'' else ''False'')"

definition default_expiration :: timestamp where
  "default_expiration = 22991231000000"

text \<open>
  The queue entry that \<^verbatim>\<open>send_message\<close> is given: the body and the dictionary
  \<^verbatim>\<open>msg_attr\<close> of lines 228 to 270. The three optional attributes are present only when
  their value is a non-empty string. The queue url is filled in by the queue that takes
  the entry.
\<close>

definition new_entry :: "string \<Rightarrow> string \<Rightarrow> string \<Rightarrow> string \<Rightarrow> timestamp \<Rightarrow> string \<Rightarrow> bool
    \<Rightarrow> string \<Rightarrow> string option \<Rightarrow> string option \<Rightarrow> string option \<Rightarrow> sqs_message" where
  "new_entry handle message_body person windows expiration_date uuid no_more_occ voice
       required_bots bot_names ice_breaker =
     \<lparr> receipt_handle = handle,
       queue_url = MessageQueue,
       sqs_body = message_body,
       attr_PersonName = person,
       attr_Locations = windows,
       attr_ExpirationDateTimeInUtc = expiration_date,
       attr_UUID = uuid,
       attr_NoMoreOccurrences = str_bool no_more_occ,
       attr_Voice = voice,
       attr_RequiredBots = (if truthy required_bots then required_bots else None),
       attr_BotNames = (if truthy bot_names then bot_names else None),
       attr_IceBreaker = (if truthy ice_breaker then ice_breaker else None) \<rparr>"

text \<open>
  \<open>fresh_uuid\<close> is the value of \<^verbatim>\<open>str(uuid.uuid4())\<close>, \<open>handle\<close> the receipt handle the
  transport gives the new entry, and \<open>get_person\<close> stands for
  \<^verbatim>\<open>PersonManager().get_person(person_name).time_windows.to_json()\<close>, which is not part
  of the source at hand: \<open>None\<close> is a lookup that raises. The result is the exception
  raised, if any, and the state at that moment.
\<close>

definition publish_message :: "(string \<Rightarrow> string option) \<Rightarrow> string \<Rightarrow> string \<Rightarrow> publish_kwargs
    \<Rightarrow> manager \<Rightarrow> error option \<times> manager" where
  "publish_message get_person fresh_uuid handle kwargs st =
     (let expiration_date = pop (kw_ExpirationDateTimeInUtc kwargs) default_expiration;
          body = pop (kw_Body kwargs) [];
          uuid_key = pop (kw_UUID kwargs) fresh_uuid;
          no_more_occ = pop (kw_NoMoreOccurrences kwargs) False;
          person_name = pop (kw_PersonName kwargs) [];
          bot_names = kw_BotNames kwargs;
          required_bots = kw_RequiredBots kwargs;
          ice_breaker = kw_IceBreaker kwargs;
          voice = pop (kw_VoiceId kwargs) ''Joanna''
      in if person_name = [] then (Some (ValueError ''No person provided''), st)
         else if uuid_key = [] then (Some (ValueError ''No uuid provided''), st)
         else if body = [] then (Some (ValueError ''No message body provided''), st)
         else if kw_other kwargs \<noteq> [] then (Some (TypeError (kw_other kwargs)), st)
         else case get_person person_name of
                None \<Rightarrow> (Some PersonError, st)
              | Some windows \<Rightarrow>
                  (let msg = new_entry handle body person_name windows expiration_date uuid_key
                               no_more_occ voice required_bots bot_names ice_breaker
                   in if truthy bot_names then (None, send_message BotQueue msg st)
                      else (None, send_message MessageQueue msg st)))"

subsection \<open>Example data\<close>

definition entry :: "string \<Rightarrow> queue_ref \<Rightarrow> string \<Rightarrow> string \<Rightarrow> string \<Rightarrow> timestamp \<Rightarrow> string
    \<Rightarrow> string \<Rightarrow> sqs_message" where
  "entry handle url uuid person text expires no_more voice =
     \<lparr> receipt_handle = handle, queue_url = url, sqs_body = text,
       attr_PersonName = person, attr_Locations = [],
       attr_ExpirationDateTimeInUtc = expires, attr_UUID = uuid,
       attr_NoMoreOccurrences = no_more, attr_Voice = voice,
       attr_RequiredBots = None, attr_BotNames = None, attr_IceBreaker = None \<rparr>"

definition m_hello :: sqs_message where
  "m_hello = entry ''h1'' MessageQueue ''u1'' ''alice'' ''Hello'' 22991231000000 ''True'' ''Joanna''"

definition m_bye :: sqs_message where
  "m_bye = entry ''h2'' MessageQueue ''u2'' ''alice'' ''Bye'' 22991231000000 ''False'' ''Joanna''"

definition m_ping :: sqs_message where
  "m_ping = entry ''h3'' BotQueue ''u3'' ''bob'' ''Ping'' 22991231000000 ''False'' ''Joanna''"

definition m_old :: sqs_message where
  "m_old = entry ''h4'' MessageQueue ''u4'' ''alice'' ''Stale'' 20170101000000 ''False'' ''Brian''"

text \<open>A table in which the scheduler has marked every message as queued and never delivered.\<close>

definition all_queued :: occurrences where
  "all_queued = (\<lambda>k. \<lparr> in_queue = True, last_occurrence = 0, expired = False \<rparr>)"

definition two_for_alice :: manager where
  "two_for_alice = new_manager [m_hello, m_bye] [] all_queued"

definition one_on_each :: manager where
  "one_on_each = new_manager [m_hello] [m_ping] all_queued"

text \<open>
  An instance that holds Alice's record from an earlier receive while an expired record for
  her waits in the queue.
\<close>

definition stale_arrives :: manager where
  "stale_arrives = (new_manager [m_old] [] all_queued)\<lparr>messages := [(''alice'', [QueuedMessage m_hello])]\<rparr>"

text \<open>An instance that holds only Bob's record while nothing waits in the queue.\<close>

definition only_bob_held :: manager where
  "only_bob_held = (new_manager [] [] all_queued)\<lparr>messages := [(''bob'', [QueuedMessage m_ping])]\<rparr>"

text \<open>Eleven entries for Alice, with the handles \<^verbatim>\<open>a\<close> to \<^verbatim>\<open>k\<close>.\<close>

definition backlog_entry :: "char \<Rightarrow> sqs_message" where
  "backlog_entry c =
     entry [c] MessageQueue [CHR ''u'', c] ''alice'' ''Hello'' 22991231000000 ''False'' ''Joanna''"

definition backlog :: manager where
  "backlog = new_manager (map backlog_entry ''abcdefghijk'') [] all_queued"

text \<open>
  The queues are consistent when every entry carries the url of the queue that holds it, as
  every entry sent by \<^verbatim>\<open>send_message\<close> does.
\<close>

definition queues_consistent :: "manager \<Rightarrow> bool" where
  "queues_consistent st =
     (list_all (\<lambda>e. queue_url e = MessageQueue) (queue st) \<and>
      list_all (\<lambda>e. queue_url e = BotQueue) (bot_queue st))"

definition plain_request :: publish_kwargs where
  "plain_request =
     \<lparr> kw_ExpirationDateTimeInUtc = None, kw_Body = Some ''Hello'', kw_UUID = Some ''u1'',
       kw_NoMoreOccurrences = Some True, kw_PersonName = Some ''alice'', kw_BotNames = None,
       kw_RequiredBots = None, kw_IceBreaker = None, kw_VoiceId = None, kw_other = [] \<rparr>"

text \<open>The state after Alice's first record has been fetched from \<open>two_for_alice\<close>.\<close>

definition alice_fetched :: manager where
  "alice_fetched = snd (get_messages ''alice'' ''Message'' 10 two_for_alice)"

text \<open>
  The same state after the scheduler, which shares the table, has marked the message as
  queued once more.
\<close>

definition alice_requeued :: manager where
  "alice_requeued =
     alice_fetched\<lparr>scheduler := update_queue_status ''u1'' ''alice'' True (scheduler alice_fetched)\<rparr>"

text \<open>
  The state after a first receive on the standard queue of \<open>one_on_each\<close>, and
  after a second receive, on the bot queue.
\<close>

definition after_first_receive :: manager where
  "after_first_receive = snd (get_messages [] ''Message'' 10 one_on_each)"

definition after_second_receive :: manager where
  "after_second_receive = snd (get_messages [] ''Bot'' 10 after_first_receive)"

text \<open>A speech helper that finds no token to replace.\<close>

definition no_tokens :: "string \<Rightarrow> string \<Rightarrow> string" where
  "no_tokens person speech = speech"

text \<open>A person table that knows Alice only, and a request without a body.\<close>

definition known_person :: "string \<Rightarrow> string option" where
  "known_person p = (if p = ''alice'' then Some ''{}'' else None)"

definition empty_body_request :: publish_kwargs where
  "empty_body_request = plain_request\<lparr>kw_Body := Some []\<rparr>"

subsection \<open>Notions used in the statements\<close>

text \<open>The row of the occurrence table that belongs to a queue entry.\<close>

definition key_of :: "sqs_message \<Rightarrow> string \<times> string" where
  "key_of m = (uuid_key (QueuedMessage m), person_name (QueuedMessage m))"

text \<open>The receipt handles of those entries of a batch that came from the given queue.\<close>

definition handles_on :: "queue_ref \<Rightarrow> sqs_message list \<Rightarrow> string set" where
  "handles_on url ms = receipt_handle ` {m \<in> set ms. queue_url m = url}"

section \<open>Properties\<close>

subsection \<open>What one call of \<^verbatim>\<open>get_messages\<close> does\<close>

lemma map_of_add_message:
  "map_of (add_message qm d) =
     (map_of d)(person_name qm \<mapsto>
        (case map_of d (person_name qm) of None \<Rightarrow> [] | Some g \<Rightarrow> g) @ [qm])"
  by (auto simp: add_message_def Let_def update_conv' split: option.splits)

lemma get_messages_loop_find:
  "get_messages_loop pname ms msgs st =
     (case find (\<lambda>m. pname = [] \<or> attr_PersonName m = pname) ms of
        None \<Rightarrow> (None, st)
      | Some m \<Rightarrow>
          (Some (msgs @ [QueuedMessage m]),
           st\<lparr> messages := add_message (QueuedMessage m) (messages st),
               sqs_msgs := sqs_msgs st @ [m],
               scheduler := update_queue_status (attr_UUID m) (attr_PersonName m) False
                              (scheduler st) \<rparr>))"
  by (induction ms) (auto simp: Let_def QueuedMessage_def)

lemma get_messages_find:
  "get_messages pname message_type n st =
     (case find (\<lambda>m. pname = [] \<or> attr_PersonName m = pname)
             (receive_messages n (if message_type = ''Message'' then queue st else bot_queue st)) of
        None \<Rightarrow> (None, st\<lparr>sqs_msgs := []\<rparr>)
      | Some m \<Rightarrow>
          (Some [QueuedMessage m],
           st\<lparr> messages := add_message (QueuedMessage m) (messages st),
               sqs_msgs := [m],
               scheduler := update_queue_status (attr_UUID m) (attr_PersonName m) False
                              (scheduler st) \<rparr>))"
proof -
  define fetched where
    "fetched = receive_messages n (if message_type = ''Message'' then queue st else bot_queue st)"
  have "get_messages pname message_type n st =
          (if fetched = [] then (None, st\<lparr>sqs_msgs := []\<rparr>)
           else get_messages_loop pname fetched [] (st\<lparr>sqs_msgs := []\<rparr>))"
    by (simp add: get_messages_def Let_def fetched_def)
  also have "\<dots> =
     (case find (\<lambda>m. pname = [] \<or> attr_PersonName m = pname) fetched of
        None \<Rightarrow> (None, st\<lparr>sqs_msgs := []\<rparr>)
      | Some m \<Rightarrow>
          (Some [QueuedMessage m],
           st\<lparr> messages := add_message (QueuedMessage m) (messages st),
               sqs_msgs := [m],
               scheduler := update_queue_status (attr_UUID m) (attr_PersonName m) False
                              (scheduler st) \<rparr>))"
    by (cases "fetched = []") (simp_all add: get_messages_loop_find split: option.splits)
  finally show ?thesis
    by (simp add: fetched_def)
qed

text \<open>
  So a call handles exactly the first fetched record that passes the test of line 123, if
  there is one.
\<close>

lemmas example_defs = two_for_alice_def one_on_each_def stale_arrives_def only_bob_held_def
  new_manager_def m_hello_def m_bye_def m_ping_def m_old_def entry_def all_queued_def

lemmas run_defs = get_messages_def receive_messages_def Let_def QueuedMessage_def
  add_message_def update_queue_status_def

subsection \<open>Claims about \<^verbatim>\<open>get_messages\<close>\<close>

text \<open>
  C1, as the code has it: every record that \<^verbatim>\<open>get_messages\<close> puts into its batch
  (\<^verbatim>\<open>self.sqs_msgs\<close>) has its \<^verbatim>\<open>inQueue\<close> flag for (id, person) written as false at the
  moment it is fetched, and no call of \<^verbatim>\<open>get_messages\<close> turns any \<^verbatim>\<open>inQueue\<close> flag
  from false to true.
\<close>

theorem C1_fetch_sets_in_queue_false:
  assumes "get_messages pname message_type n st = (r, st')"
  shows "(\<forall>m \<in> set (sqs_msgs st').
            \<not> in_queue (scheduler st' (uuid_key (QueuedMessage m), person_name (QueuedMessage m))))
         \<and> (\<forall>k. in_queue (scheduler st' k) \<longrightarrow> in_queue (scheduler st k))"
  using assms
  by (auto simp: get_messages_find update_queue_status_def QueuedMessage_def
           split: option.splits if_splits)

theorem C1_fetch_sets_in_queue_false_witness:
  "sqs_msgs (snd (get_messages ''alice'' ''Message'' 10 two_for_alice)) = [m_hello]
   \<and> \<not> in_queue (scheduler (snd (get_messages ''alice'' ''Message'' 10 two_for_alice))
                   (''u1'', ''alice''))"
proof -
  have run: "sqs_msgs (snd (get_messages ''alice'' ''Message'' 10 two_for_alice)) = [m_hello]"
    by (simp add: example_defs run_defs)
  have key: "(uuid_key (QueuedMessage m_hello), person_name (QueuedMessage m_hello)) = (''u1'', ''alice'')"
    by (simp add: example_defs QueuedMessage_def)
  from C1_fetch_sets_in_queue_false [OF surjective_pairing, of "''alice''" "''Message''" 10 two_for_alice]
  show ?thesis using run key by simp
qed

text \<open>
  C1 as stated fails: the scheduler has marked Alice's message \<^verbatim>\<open>u1\<close> as queued; the
  receive fetches it for her, and right after the call its \<^verbatim>\<open>inQueue\<close> flag is false, not
  true (line 134 passes \<^verbatim>\<open>False\<close>).
\<close>

theorem C1_fetch_marks_in_queue_true_counterexample:
  "fst (get_messages ''alice'' ''Message'' 10 two_for_alice) = Some [QueuedMessage m_hello]
   \<and> in_queue (scheduler two_for_alice (''u1'', ''alice''))
   \<and> \<not> in_queue (scheduler (snd (get_messages ''alice'' ''Message'' 10 two_for_alice))
                   (''u1'', ''alice''))"
  by (simp add: example_defs run_defs)

text \<open>
  C2: the batch is to hold every fetched record that matches. With two records for Alice
  in the queue, both fetched by the one receive, the call returns the first only:
  \<^verbatim>\<open>return msgs\<close> stands inside the loop.
\<close>

theorem C2_first_match_only:
  "queue two_for_alice = [m_hello, m_bye]
   \<and> person_name (QueuedMessage m_bye) = ''alice''
   \<and> fst (get_messages ''alice'' ''Message'' 10 two_for_alice) = Some [QueuedMessage m_hello]
   \<and> messages (snd (get_messages ''alice'' ''Message'' 10 two_for_alice))
       = [(''alice'', [QueuedMessage m_hello])]
   \<and> sqs_msgs (snd (get_messages ''alice'' ''Message'' 10 two_for_alice)) = [m_hello]"
  by (simp add: example_defs run_defs)

subsection \<open>What the resolve operations do to each field\<close>

lemma delete_message_frame:
  "messages (delete_message url h st) = messages st"
  "sqs_msgs (delete_message url h st) = sqs_msgs st"
  "scheduler (delete_message url h st) = scheduler st"
  by (simp_all add: delete_message_def split: queue_ref.splits)

lemma delete_message_queue:
  "queue (delete_message url h st) =
     (if url = MessageQueue then filter (\<lambda>e. receipt_handle e \<noteq> h) (queue st) else queue st)"
  "bot_queue (delete_message url h st) =
     (if url = BotQueue then filter (\<lambda>e. receipt_handle e \<noteq> h) (bot_queue st) else bot_queue st)"
  by (simp_all add: delete_message_def split: queue_ref.splits)

lemma fold_delete_message_frame:
  "messages (fold (\<lambda>m. delete_message (queue_url m) (receipt_handle m)) ms st) = messages st
   \<and> sqs_msgs (fold (\<lambda>m. delete_message (queue_url m) (receipt_handle m)) ms st) = sqs_msgs st
   \<and> scheduler (fold (\<lambda>m. delete_message (queue_url m) (receipt_handle m)) ms st) = scheduler st"
  by (induction ms arbitrary: st) (simp_all add: delete_message_frame)

lemma fold_delete_message_queue:
  "queue (fold (\<lambda>m. delete_message (queue_url m) (receipt_handle m)) ms st) =
     filter (\<lambda>e. receipt_handle e \<notin> handles_on MessageQueue ms) (queue st)"
proof (induction ms arbitrary: st)
  case Nil
  show ?case by (simp add: handles_on_def)
next
  case (Cons m ms)
  show ?case
    by (auto simp: Cons.IH delete_message_queue handles_on_def intro!: filter_cong)
qed

lemma fold_delete_message_bot_queue:
  "bot_queue (fold (\<lambda>m. delete_message (queue_url m) (receipt_handle m)) ms st) =
     filter (\<lambda>e. receipt_handle e \<notin> handles_on BotQueue ms) (bot_queue st)"
proof (induction ms arbitrary: st)
  case Nil
  show ?case by (simp add: handles_on_def)
next
  case (Cons m ms)
  show ?case
    by (auto simp: Cons.IH delete_message_queue handles_on_def intro!: filter_cong)
qed

lemma delete_sqs_msgs_fields:
  "queue (delete_sqs_msgs st) =
     filter (\<lambda>e. receipt_handle e \<notin> handles_on MessageQueue (sqs_msgs st)) (queue st)"
  "bot_queue (delete_sqs_msgs st) =
     filter (\<lambda>e. receipt_handle e \<notin> handles_on BotQueue (sqs_msgs st)) (bot_queue st)"
  "messages (delete_sqs_msgs st) = messages st"
  "sqs_msgs (delete_sqs_msgs st) = sqs_msgs st"
  "scheduler (delete_sqs_msgs st) = scheduler st"
  by (simp_all add: delete_sqs_msgs_def fold_delete_message_frame fold_delete_message_queue
        fold_delete_message_bot_queue)

lemma fail_step_frame:
  "queue (fail_step m st) = queue st" "bot_queue (fail_step m st) = bot_queue st"
  "messages (fail_step m st) = messages st" "sqs_msgs (fail_step m st) = sqs_msgs st"
  by (simp_all add: fail_step_def Let_def)

lemma succeed_step_frame:
  "queue (succeed_step now m st) = queue st" "bot_queue (succeed_step now m st) = bot_queue st"
  "messages (succeed_step now m st) = messages st" "sqs_msgs (succeed_step now m st) = sqs_msgs st"
  by (simp_all add: succeed_step_def Let_def)

lemma fold_fail_step_frame:
  "queue (fold fail_step ms st) = queue st \<and> bot_queue (fold fail_step ms st) = bot_queue st
   \<and> messages (fold fail_step ms st) = messages st \<and> sqs_msgs (fold fail_step ms st) = sqs_msgs st"
  by (induction ms arbitrary: st) (simp_all add: fail_step_frame)

lemma fold_succeed_step_frame:
  "queue (fold (succeed_step now) ms st) = queue st
   \<and> bot_queue (fold (succeed_step now) ms st) = bot_queue st
   \<and> messages (fold (succeed_step now) ms st) = messages st
   \<and> sqs_msgs (fold (succeed_step now) ms st) = sqs_msgs st"
  by (induction ms arbitrary: st) (simp_all add: succeed_step_frame)

lemma scheduler_fail_step:
  "scheduler (fail_step m st) k =
     (if k = key_of m then (scheduler st k)\<lparr>in_queue := False\<rparr> else scheduler st k)"
  by (simp add: fail_step_def Let_def update_queue_status_def key_of_def)

lemma scheduler_succeed_step:
  "scheduler (succeed_step now m st) k =
     (if k = key_of m
      then (scheduler st k)\<lparr> in_queue := False, last_occurrence := now,
             expired := expired (scheduler st k) \<or> no_more_occurrences (QueuedMessage m) \<rparr>
      else scheduler st k)"
  by (simp add: succeed_step_def Let_def update_queue_status_def update_last_occurrence_def
        set_expired_def key_of_def)

lemma scheduler_fold_fail_step:
  "scheduler (fold fail_step ms st) k =
     (if k \<in> key_of ` set ms then (scheduler st k)\<lparr>in_queue := False\<rparr> else scheduler st k)"
  by (induction ms arbitrary: st) (auto simp: scheduler_fail_step)

lemma scheduler_fold_succeed_step:
  "scheduler (fold (succeed_step now) ms st) k =
     (if k \<in> key_of ` set ms
      then (scheduler st k)\<lparr> in_queue := False, last_occurrence := now,
             expired := expired (scheduler st k) \<or>
               (\<exists>m \<in> set ms. key_of m = k \<and> no_more_occurrences (QueuedMessage m)) \<rparr>
      else scheduler st k)"
proof (induction ms arbitrary: st)
  case Nil
  show ?case by simp
next
  case (Cons m ms)
  show ?case
  proof (cases "k \<in> key_of ` set ms")
    case True
    then show ?thesis
      by (auto simp: Cons.IH scheduler_succeed_step)
  next
    case False
    show ?thesis
    proof (cases "k = key_of m")
      case True
      with False have none: "key_of m \<notin> key_of ` set ms"
        by simp
      then have nex: "(\<exists>x \<in> set ms. key_of x = key_of m \<and> no_more_occurrences (QueuedMessage x)) = False"
        by (metis imageI)
      from none show ?thesis
        unfolding True by (simp add: Cons.IH [unfolded True] scheduler_succeed_step nex)
    next
      case other: False
      with False show ?thesis
        by (simp add: Cons.IH scheduler_succeed_step)
    qed
  qed
qed

lemma succeed_messages_fields:
  "queue (succeed_messages False now st) =
     filter (\<lambda>e. receipt_handle e \<notin> handles_on MessageQueue (sqs_msgs st)) (queue st)"
  "bot_queue (succeed_messages False now st) =
     filter (\<lambda>e. receipt_handle e \<notin> handles_on BotQueue (sqs_msgs st)) (bot_queue st)"
  "messages (succeed_messages False now st) = messages st"
  "sqs_msgs (succeed_messages False now st) = sqs_msgs st"
  "scheduler (succeed_messages False now st) k =
     (if k \<in> key_of ` set (sqs_msgs st)
      then (scheduler st k)\<lparr> in_queue := False, last_occurrence := now,
             expired := expired (scheduler st k) \<or>
               (\<exists>m \<in> set (sqs_msgs st). key_of m = k \<and> no_more_occurrences (QueuedMessage m)) \<rparr>
      else scheduler st k)"
  by (simp_all add: succeed_messages_def delete_sqs_msgs_fields fold_succeed_step_frame
        scheduler_fold_succeed_step)

lemma fail_messages_fields:
  "queue (fail_messages False st) =
     filter (\<lambda>e. receipt_handle e \<notin> handles_on MessageQueue (sqs_msgs st)) (queue st)"
  "bot_queue (fail_messages False st) =
     filter (\<lambda>e. receipt_handle e \<notin> handles_on BotQueue (sqs_msgs st)) (bot_queue st)"
  "messages (fail_messages False st) = messages st"
  "sqs_msgs (fail_messages False st) = sqs_msgs st"
  "scheduler (fail_messages False st) k =
     (if k \<in> key_of ` set (sqs_msgs st) then (scheduler st k)\<lparr>in_queue := False\<rparr>
      else scheduler st k)"
  by (simp_all add: fail_messages_def delete_sqs_msgs_fields fold_fail_step_frame
        scheduler_fold_fail_step)

subsection \<open>Claims about \<^verbatim>\<open>succeed_messages\<close> and \<^verbatim>\<open>fail_messages\<close>\<close>

lemmas resolve_defs = succeed_messages_def fail_messages_def delete_sqs_msgs_def
  delete_message_def succeed_step_def fail_step_def update_last_occurrence_def set_expired_def

lemma alice_fetched_batch: "sqs_msgs alice_fetched = [m_hello]"
  by (simp add: alice_fetched_def example_defs run_defs)

lemma key_of_m_hello: "key_of m_hello = (''u1'', ''alice'')"
  by (simp add: key_of_def QueuedMessage_def m_hello_def entry_def)

text \<open>
  C3, as the code has it: with \<^verbatim>\<open>DontDelete\<close> set, \<^verbatim>\<open>succeed_messages\<close> returns at line
  183 before it reaches the scheduler: no queue entry is deleted and no row of the
  occurrence table changes.
\<close>

theorem C3_dont_delete_success_changes_nothing:
  "succeed_messages True now st = st"
  by (simp add: succeed_messages_def)

text \<open>
  C3 as stated fails: the batch holds Alice's record \<^verbatim>\<open>u1\<close>, which has no more
  occurrences. After \<^verbatim>\<open>succeed_messages(DontDelete=True)\<close> its row still has the last
  occurrence 0 and is not expired.
\<close>

theorem C3_dont_delete_success_updates_state_counterexample:
  "sqs_msgs alice_fetched = [m_hello]
   \<and> no_more_occurrences (QueuedMessage m_hello)
   \<and> key_of m_hello = (''u1'', ''alice'')
   \<and> last_occurrence (scheduler (succeed_messages True 20260101120000 alice_fetched)
        (''u1'', ''alice'')) = 0
   \<and> \<not> expired (scheduler (succeed_messages True 20260101120000 alice_fetched)
          (''u1'', ''alice''))"
  by (simp add: alice_fetched_def example_defs run_defs resolve_defs key_of_def)

text \<open>
  C4, as the code has it: a second \<^verbatim>\<open>succeed_messages\<close> on the same batch does not crash
  (no statement of the method raises, and deleting an entry that is already gone changes
  nothing) and runs the same updates again. The state after both calls is the state one
  call at the time of the second would have produced. The second call leaves both queues,
  the batch and every \<^verbatim>\<open>inQueue\<close> and expired flag as the first call left them: the entries
  of the batch are deleted, their \<^verbatim>\<open>inQueue\<close> is false, and expired is set where the record
  has no more occurrences. It changes the rows of the batch only, and there only the last
  occurrence, from the time of the first call to the time of the second.
\<close>

theorem C4_second_success_overwrites:
  assumes "once = succeed_messages False t1 st"
    and "twice = succeed_messages False t2 once"
  shows "twice = succeed_messages False t2 st
     \<and> queue twice = queue once \<and> bot_queue twice = bot_queue once
     \<and> queue once
         = filter (\<lambda>e. receipt_handle e \<notin> handles_on MessageQueue (sqs_msgs st)) (queue st)
     \<and> bot_queue once
         = filter (\<lambda>e. receipt_handle e \<notin> handles_on BotQueue (sqs_msgs st)) (bot_queue st)
     \<and> messages twice = messages once
     \<and> sqs_msgs twice = sqs_msgs once \<and> sqs_msgs once = sqs_msgs st
     \<and> (\<forall>k. in_queue (scheduler twice k) = in_queue (scheduler once k)
              \<and> expired (scheduler twice k) = expired (scheduler once k))
     \<and> (\<forall>k. k \<notin> key_of ` set (sqs_msgs st) \<longrightarrow> scheduler twice k = scheduler once k)
     \<and> (\<forall>m \<in> set (sqs_msgs st).
            last_occurrence (scheduler once (key_of m)) = t1
          \<and> last_occurrence (scheduler twice (key_of m)) = t2
          \<and> \<not> in_queue (scheduler twice (key_of m))
          \<and> (no_more_occurrences (QueuedMessage m) \<longrightarrow> expired (scheduler twice (key_of m))))"
proof (intro conjI)
  show "twice = succeed_messages False t2 st"
    unfolding assms
  proof (rule manager.equality)
    show "scheduler (succeed_messages False t2 (succeed_messages False t1 st)) =
          scheduler (succeed_messages False t2 st)"
      by (rule ext) (simp add: succeed_messages_fields)
  qed (simp_all add: succeed_messages_fields)
  show "queue twice = queue once" "bot_queue twice = bot_queue once"
    "messages twice = messages once" "sqs_msgs twice = sqs_msgs once" "sqs_msgs once = sqs_msgs st"
    by (simp_all add: assms succeed_messages_fields)
  show "queue once
          = filter (\<lambda>e. receipt_handle e \<notin> handles_on MessageQueue (sqs_msgs st)) (queue st)"
    "bot_queue once
          = filter (\<lambda>e. receipt_handle e \<notin> handles_on BotQueue (sqs_msgs st)) (bot_queue st)"
    by (simp_all add: assms succeed_messages_fields)
  show "\<forall>k. in_queue (scheduler twice k) = in_queue (scheduler once k)
           \<and> expired (scheduler twice k) = expired (scheduler once k)"
    by (simp add: assms succeed_messages_fields)
  show "\<forall>k. k \<notin> key_of ` set (sqs_msgs st) \<longrightarrow> scheduler twice k = scheduler once k"
    by (simp add: assms succeed_messages_fields)
  show "\<forall>m \<in> set (sqs_msgs st).
            last_occurrence (scheduler once (key_of m)) = t1
          \<and> last_occurrence (scheduler twice (key_of m)) = t2
          \<and> \<not> in_queue (scheduler twice (key_of m))
          \<and> (no_more_occurrences (QueuedMessage m) \<longrightarrow> expired (scheduler twice (key_of m)))"
    by (auto simp: assms succeed_messages_fields)
qed

lemma alice_fetched_queue: "queue alice_fetched = [m_hello, m_bye]"
  by (simp add: alice_fetched_def example_defs run_defs)

lemma m_hello_fields:
  "receipt_handle m_hello = ''h1''" "queue_url m_hello = MessageQueue"
  "receipt_handle m_bye = ''h2''"
  by (simp_all add: m_hello_def m_bye_def entry_def)

lemma alice_fetched_handles: "handles_on MessageQueue [m_hello] = {''h1''}"
  by (auto simp: handles_on_def m_hello_fields)

lemma m_hello_no_more: "no_more_occurrences (QueuedMessage m_hello)"
  by (simp add: QueuedMessage_def m_hello_def entry_def)

theorem C4_second_success_overwrites_witness:
  "last_occurrence (scheduler (succeed_messages False 20260101130000
      (succeed_messages False 20260101120000 alice_fetched)) (''u1'', ''alice'')) = 20260101130000
   \<and> \<not> in_queue (scheduler (succeed_messages False 20260101130000
         (succeed_messages False 20260101120000 alice_fetched)) (''u1'', ''alice''))
   \<and> expired (scheduler (succeed_messages False 20260101130000
         (succeed_messages False 20260101120000 alice_fetched)) (''u1'', ''alice''))
   \<and> queue (succeed_messages False 20260101130000
         (succeed_messages False 20260101120000 alice_fetched)) = [m_bye]"
proof -
  define once where "once = succeed_messages False 20260101120000 alice_fetched"
  define twice where "twice = succeed_messages False 20260101130000 once"
  note facts = C4_second_success_overwrites [OF once_def twice_def]
  have rows: "\<forall>m \<in> set (sqs_msgs alice_fetched).
            last_occurrence (scheduler once (key_of m)) = 20260101120000
          \<and> last_occurrence (scheduler twice (key_of m)) = 20260101130000
          \<and> \<not> in_queue (scheduler twice (key_of m))
          \<and> (no_more_occurrences (QueuedMessage m) \<longrightarrow> expired (scheduler twice (key_of m)))"
    using facts by (elim conjE) assumption
  have kept: "queue twice = queue once"
    using facts by (elim conjE) assumption
  have deleted: "queue once
      = filter (\<lambda>e. receipt_handle e \<notin> handles_on MessageQueue (sqs_msgs alice_fetched))
          (queue alice_fetched)"
    using facts by (elim conjE) assumption
  from kept deleted have "queue twice = [m_bye]"
    by (simp add: alice_fetched_batch alice_fetched_queue alice_fetched_handles m_hello_fields)
  moreover from rows have "last_occurrence (scheduler twice (''u1'', ''alice'')) = 20260101130000
      \<and> \<not> in_queue (scheduler twice (''u1'', ''alice''))
      \<and> expired (scheduler twice (''u1'', ''alice''))"
    by (simp add: alice_fetched_batch key_of_m_hello m_hello_no_more)
  ultimately show ?thesis
    unfolding twice_def once_def by simp
qed

text \<open>
  C4 as stated fails: resolved at 12:00 and again at 13:00, the record's last occurrence
  moves from 12:00 to 13:00.
\<close>

theorem C4_second_success_keeps_last_occurrence_counterexample:
  "sqs_msgs alice_fetched = [m_hello]
   \<and> key_of m_hello = (''u1'', ''alice'')
   \<and> last_occurrence (scheduler (succeed_messages False 20260101120000 alice_fetched)
        (''u1'', ''alice'')) = 20260101120000
   \<and> last_occurrence (scheduler (succeed_messages False 20260101130000
        (succeed_messages False 20260101120000 alice_fetched)) (''u1'', ''alice'')) = 20260101130000"
  by (simp add: alice_fetched_batch key_of_m_hello succeed_messages_fields)

text \<open>
  C5, as the code has it: with \<^verbatim>\<open>DontDelete\<close> set, \<^verbatim>\<open>fail_messages\<close> changes nothing at
  all; without it, every record of the batch has \<^verbatim>\<open>inQueue\<close> false afterwards. In both
  cases no row's last occurrence or expired flag changes.
\<close>

theorem C5_failure_effects:
  "fail_messages True st = st
   \<and> (\<forall>m \<in> set (sqs_msgs st). \<not> in_queue (scheduler (fail_messages False st) (key_of m)))
   \<and> (\<forall>k. last_occurrence (scheduler (fail_messages dont_delete st) k)
             = last_occurrence (scheduler st k)
           \<and> expired (scheduler (fail_messages dont_delete st) k) = expired (scheduler st k))"
  by (cases dont_delete) (simp_all add: fail_messages_fields, simp_all add: fail_messages_def)

theorem C5_failure_effects_witness:
  "\<not> in_queue (scheduler (fail_messages False alice_requeued) (''u1'', ''alice''))
   \<and> last_occurrence (scheduler (fail_messages False alice_requeued) (''u1'', ''alice'')) = 0
   \<and> \<not> expired (scheduler (fail_messages False alice_requeued) (''u1'', ''alice''))"
proof -
  have batch: "sqs_msgs alice_requeued = [m_hello]"
    by (simp add: alice_requeued_def alice_fetched_batch)
  have before: "last_occurrence (scheduler alice_requeued (''u1'', ''alice'')) = 0
                \<and> \<not> expired (scheduler alice_requeued (''u1'', ''alice''))"
    by (simp add: alice_requeued_def alice_fetched_def example_defs run_defs)
  from C5_failure_effects [of alice_requeued False] batch before show ?thesis
    by (simp add: key_of_m_hello)
qed

text \<open>
  C5 as stated fails: the record of the batch is marked as queued in the table, and
  \<^verbatim>\<open>fail_messages(DontDelete=True)\<close> leaves it so.
\<close>

theorem C5_dont_delete_failure_clears_in_queue_counterexample:
  "sqs_msgs alice_requeued = [m_hello]
   \<and> key_of m_hello = (''u1'', ''alice'')
   \<and> in_queue (scheduler (fail_messages True alice_requeued) (''u1'', ''alice''))"
  by (simp add: alice_requeued_def alice_fetched_def example_defs run_defs resolve_defs key_of_def)

subsection \<open>Claims about \<^verbatim>\<open>write_speech\<close>\<close>

lemma fold_speech_step:
  "fold (speech_step now) grp speech =
     speech @ concat (map (\<lambda>m. ''<p>'' @ body m @ ''</p>'') (filter (\<lambda>m. \<not> is_expired now m) grp))"
  by (induction grp arbitrary: speech) (simp_all add: speech_step_def)

lemma no_paragraph_iff:
  "concat (map (\<lambda>m. ''<p>'' @ body m @ ''</p>'') (filter (\<lambda>m. \<not> is_expired now m) grp)) = []
     \<longleftrightarrow> (\<forall>m \<in> set grp. is_expired now m)"
  by (auto simp: filter_empty_conv)

text \<open>
  C6, as the code has it: \<^verbatim>\<open>write_speech\<close> first receives for the person and then looks at
  the records the instance holds. When it holds none at all the result is \<^verbatim>\<open>None\<close>. When
  it holds a list for the person, the result is \<^verbatim>\<open>None\<close> if all of them are expired, and
  otherwise the voice of the last record of the list, expired or not, with the markup:
  the bodies of exactly the records that are not expired, each in a paragraph, inside
  \<^verbatim>\<open><speak>\<close>, passed through the token replacement.
\<close>

theorem C6_speech_of_held_records:
  assumes "held_state = snd (get_messages pname ''Message'' 10 st)"
  shows "snd (write_speech replace_tokens now pname st) = held_state
     \<and> (messages held_state = [] \<longrightarrow> fst (write_speech replace_tokens now pname st) = Inr None)
     \<and> (\<forall>grp. map_of (messages held_state) pname = Some grp \<longrightarrow>
          fst (write_speech replace_tokens now pname st) =
            (if \<forall>m \<in> set grp. is_expired now m then Inr None
             else Inr (Some (voice_id (last grp),
                    replace_tokens pname
                      (''<speak>'' @
                       concat (map (\<lambda>m. ''<p>'' @ body m @ ''</p>'')
                                 (filter (\<lambda>m. \<not> is_expired now m) grp)) @
                       ''</speak>'')))))"
proof (intro conjI allI impI)
  show "snd (write_speech replace_tokens now pname st) = held_state"
    by (simp add: write_speech_def Let_def assms split: option.splits)
  show "fst (write_speech replace_tokens now pname st) = Inr None" if "messages held_state = []"
    using that by (simp add: write_speech_def Let_def assms)
  show "fst (write_speech replace_tokens now pname st) =
            (if \<forall>m \<in> set grp. is_expired now m then Inr None
             else Inr (Some (voice_id (last grp),
                    replace_tokens pname
                      (''<speak>'' @
                       concat (map (\<lambda>m. ''<p>'' @ body m @ ''</p>'')
                                 (filter (\<lambda>m. \<not> is_expired now m) grp)) @
                       ''</speak>''))))"
    if held: "map_of (messages held_state) pname = Some grp" for grp
  proof -
    from held have "messages held_state \<noteq> []"
      by auto
    with held show ?thesis
      unfolding write_speech_def Let_def assms [symmetric]
      by (simp add: fold_speech_step no_paragraph_iff del: append.simps)
  qed
qed

lemma stale_arrives_held:
  "map_of (messages (snd (get_messages ''alice'' ''Message'' 10 stale_arrives))) ''alice''
     = Some [QueuedMessage m_hello, QueuedMessage m_old]"
  by (simp add: example_defs run_defs)

lemma stale_arrives_expiry:
  "\<not> is_expired 20260101120000 (QueuedMessage m_hello)"
  "is_expired 20260101120000 (QueuedMessage m_old)"
  by (simp_all add: is_expired_def QueuedMessage_def m_hello_def m_old_def entry_def)

theorem C6_speech_of_held_records_witness:
  "fst (write_speech no_tokens 20260101120000 ''alice'' stale_arrives)
     = Inr (Some (''Brian'', ''<speak><p>Hello</p></speak>''))"
proof -
  have "fst (write_speech no_tokens 20260101120000 ''alice'' stale_arrives) =
          (if \<forall>m \<in> set [QueuedMessage m_hello, QueuedMessage m_old]. is_expired 20260101120000 m
           then Inr None
           else Inr (Some (voice_id (last [QueuedMessage m_hello, QueuedMessage m_old]),
                  no_tokens ''alice''
                    (''<speak>'' @
                     concat (map (\<lambda>m. ''<p>'' @ body m @ ''</p>'')
                               (filter (\<lambda>m. \<not> is_expired 20260101120000 m)
                                  [QueuedMessage m_hello, QueuedMessage m_old])) @
                     ''</speak>''))))"
    using C6_speech_of_held_records [OF refl, of no_tokens 20260101120000 "''alice''" stale_arrives]
      stale_arrives_held by blast
  then show ?thesis
    by (simp add: stale_arrives_expiry no_tokens_def)
       (simp add: QueuedMessage_def m_hello_def m_old_def entry_def)
qed

text \<open>
  C6 as stated fails: Alice's list holds a live record with the voice Joanna followed by
  an expired one with the voice Brian. The speech holds the live record only, and the
  voice returned is Brian, the voice of the expired record.
\<close>

theorem C6_voice_of_last_unexpired_counterexample:
  "map_of (messages (snd (get_messages ''alice'' ''Message'' 10 stale_arrives))) ''alice''
     = Some [QueuedMessage m_hello, QueuedMessage m_old]
   \<and> \<not> is_expired 20260101120000 (QueuedMessage m_hello)
   \<and> is_expired 20260101120000 (QueuedMessage m_old)
   \<and> voice_id (QueuedMessage m_hello) = ''Joanna''
   \<and> fst (write_speech no_tokens 20260101120000 ''alice'' stale_arrives)
       = Inr (Some (''Brian'', ''<speak><p>Hello</p></speak>''))"
  by (simp add: stale_arrives_held stale_arrives_expiry)
     (simp add: write_speech_def speech_step_def is_expired_def no_tokens_def example_defs run_defs)

text \<open>
  When the instance holds records, but none for the person asked for, line 147 raises
  \<^verbatim>\<open>KeyError\<close>: the test of line 144 looks at the whole dictionary.
\<close>

lemma write_speech_unknown_person_raises:
  "fst (write_speech no_tokens 20260101120000 ''alice'' only_bob_held) = Inl (KeyError ''alice'')"
  by (simp add: write_speech_def example_defs run_defs)

subsection \<open>The batch an instance holds\<close>

text \<open>
  C7, as the code has it: each call of \<^verbatim>\<open>get_messages\<close> replaces \<^verbatim>\<open>self.sqs_msgs\<close>, which
  afterwards holds only entries fetched by that call. The lists in \<^verbatim>\<open>self.messages\<close> are
  not replaced: every list held before the call is still there, with the new records
  appended.
\<close>

theorem C7_receive_replaces_sqs_msgs_only:
  assumes "get_messages pname message_type n st = (r, st')"
  shows "set (sqs_msgs st')
           \<subseteq> set (receive_messages n (if message_type = ''Message'' then queue st else bot_queue st))
     \<and> (\<forall>p grp. map_of (messages st) p = Some grp \<longrightarrow>
           (\<exists>new. map_of (messages st') p = Some (grp @ new)))"
  using assms
  by (auto simp: get_messages_find map_of_add_message find_Some_iff split: option.splits)

lemma after_first_receive_messages:
  "messages after_first_receive = [(''alice'', [QueuedMessage m_hello])]"
  by (simp add: after_first_receive_def example_defs run_defs)

theorem C7_receive_replaces_sqs_msgs_only_witness:
  "set (sqs_msgs after_second_receive) \<subseteq> set (receive_messages 10 (bot_queue after_first_receive))
   \<and> (\<exists>new. map_of (messages after_second_receive) ''alice'' = Some ([QueuedMessage m_hello] @ new))"
proof -
  have held: "map_of (messages after_first_receive) ''alice'' = Some [QueuedMessage m_hello]"
    by (simp add: after_first_receive_messages)
  have "set (sqs_msgs (snd (get_messages [] ''Bot'' 10 after_first_receive)))
          \<subseteq> set (receive_messages 10 (bot_queue after_first_receive))
        \<and> (\<exists>new. map_of (messages (snd (get_messages [] ''Bot'' 10 after_first_receive))) ''alice''
                = Some ([QueuedMessage m_hello] @ new))"
    using C7_receive_replaces_sqs_msgs_only [OF surjective_pairing,
      of "[]" "''Bot''" 10 after_first_receive] held
    by (simp del: append.simps)
  then show ?thesis
    unfolding after_second_receive_def .
qed

text \<open>
  C7 as stated fails: after a receive on the standard queue and a second one on the bot
  queue, which fetched Bob's record only, the instance still holds Alice's record from
  the first call.
\<close>

theorem C7_groups_hold_latest_receive_only_counterexample:
  "receive_messages 10 (bot_queue after_first_receive) = [m_ping]
   \<and> sqs_msgs after_second_receive = [m_ping]
   \<and> messages after_second_receive
       = [(''alice'', [QueuedMessage m_hello]), (''bob'', [QueuedMessage m_ping])]"
  by (simp add: after_second_receive_def after_first_receive_def example_defs run_defs)

subsection \<open>Claims about \<^verbatim>\<open>publish_message\<close>\<close>

text \<open>
  C8: a request that passes the checks of lines 216 to 223, for a person the person table
  knows, puts one new entry, with the request's body, person and id, at the end of exactly
  one queue: the bot queue if \<^verbatim>\<open>BotNames\<close> is a non-empty string, the standard queue
  otherwise. The other queue is unchanged.
\<close>

theorem C8_publish_routes_to_one_queue:
  assumes "pop (kw_PersonName kwargs) [] \<noteq> []"
    and "pop (kw_UUID kwargs) fresh_uuid \<noteq> []"
    and "pop (kw_Body kwargs) [] \<noteq> []"
    and "kw_other kwargs = []"
    and "get_person (pop (kw_PersonName kwargs) []) = Some windows"
  shows "\<exists>m. sqs_body m = pop (kw_Body kwargs) []
           \<and> attr_PersonName m = pop (kw_PersonName kwargs) []
           \<and> attr_UUID m = pop (kw_UUID kwargs) fresh_uuid
           \<and> queue_url m = (if truthy (kw_BotNames kwargs) then BotQueue else MessageQueue)
           \<and> publish_message get_person fresh_uuid handle kwargs st =
               (None, if truthy (kw_BotNames kwargs)
                      then st\<lparr>bot_queue := bot_queue st @ [m]\<rparr>
                      else st\<lparr>queue := queue st @ [m]\<rparr>)"
proof -
  define msg where
    "msg = new_entry handle (pop (kw_Body kwargs) []) (pop (kw_PersonName kwargs) []) windows
             (pop (kw_ExpirationDateTimeInUtc kwargs) default_expiration)
             (pop (kw_UUID kwargs) fresh_uuid) (pop (kw_NoMoreOccurrences kwargs) False)
             (pop (kw_VoiceId kwargs) ''Joanna'') (kw_RequiredBots kwargs) (kw_BotNames kwargs)
             (kw_IceBreaker kwargs)"
  define m where
    "m = msg\<lparr>queue_url := (if truthy (kw_BotNames kwargs) then BotQueue else MessageQueue)\<rparr>"
  have fields: "sqs_body m = pop (kw_Body kwargs) []"
    "attr_PersonName m = pop (kw_PersonName kwargs) []"
    "attr_UUID m = pop (kw_UUID kwargs) fresh_uuid"
    "queue_url m = (if truthy (kw_BotNames kwargs) then BotQueue else MessageQueue)"
    by (simp_all add: m_def msg_def new_entry_def)
  have "publish_message get_person fresh_uuid handle kwargs st =
          (None, if truthy (kw_BotNames kwargs)
                 then st\<lparr>bot_queue := bot_queue st @ [m]\<rparr>
                 else st\<lparr>queue := queue st @ [m]\<rparr>)"
    using assms
    by (simp add: publish_message_def Let_def send_message_def m_def msg_def)
  with fields show ?thesis
    by blast
qed

theorem C8_publish_routes_to_one_queue_witness:
  "fst (publish_message known_person ''fresh'' ''h1'' plain_request one_on_each) = None
   \<and> length (queue (snd (publish_message known_person ''fresh'' ''h1'' plain_request one_on_each))) = 2
   \<and> bot_queue (snd (publish_message known_person ''fresh'' ''h1'' plain_request one_on_each)) = [m_ping]"
proof -
  have "\<exists>m. publish_message known_person ''fresh'' ''h1'' plain_request one_on_each =
              (None, one_on_each\<lparr>queue := queue one_on_each @ [m]\<rparr>)"
    using C8_publish_routes_to_one_queue [of plain_request "''fresh''" known_person "''{}''" "''h1''" one_on_each]
    by (auto simp: plain_request_def pop_def truthy_def known_person_def)
  then obtain m where "publish_message known_person ''fresh'' ''h1'' plain_request one_on_each =
              (None, one_on_each\<lparr>queue := queue one_on_each @ [m]\<rparr>)" ..
  then show ?thesis
    by (simp add: one_on_each_def new_manager_def)
qed

text \<open>
  C9: \<^verbatim>\<open>publish_message\<close> raises \<^verbatim>\<open>ValueError\<close> exactly when the person's name, the
  body, or the id after defaulting is empty, and then no queue, and nothing else of the
  state, has changed.
\<close>

theorem C9_publish_validation:
  "((pop (kw_PersonName kwargs) [] = [] \<or> pop (kw_UUID kwargs) fresh_uuid = []
       \<or> pop (kw_Body kwargs) [] = [])
      \<longleftrightarrow> (\<exists>text. fst (publish_message get_person fresh_uuid handle kwargs st)
                     = Some (ValueError text)))
   \<and> ((\<exists>text. fst (publish_message get_person fresh_uuid handle kwargs st) = Some (ValueError text))
        \<longrightarrow> snd (publish_message get_person fresh_uuid handle kwargs st) = st)"
  by (auto simp: publish_message_def Let_def split: option.splits if_splits)

theorem C9_publish_validation_witness:
  "(\<exists>text. fst (publish_message known_person ''fresh'' ''h1'' empty_body_request one_on_each)
              = Some (ValueError text))
   \<and> snd (publish_message known_person ''fresh'' ''h1'' empty_body_request one_on_each) = one_on_each"
proof -
  have "pop (kw_Body empty_body_request) [] = []"
    by (simp add: empty_body_request_def pop_def)
  with C9_publish_validation [of empty_body_request "''fresh''" known_person "''h1''" one_on_each]
  show ?thesis
    by blast
qed

subsection \<open>Claims about \<^verbatim>\<open>reset\<close>\<close>

lemma get_messages_frame:
  "queue (snd (get_messages pname message_type n st)) = queue st"
  "bot_queue (snd (get_messages pname message_type n st)) = bot_queue st"
  by (simp_all add: get_messages_find split: option.splits)

lemma get_messages_batch_subset:
  "set (sqs_msgs (snd (get_messages pname message_type n st)))
     \<subseteq> set (receive_messages n (if message_type = ''Message'' then queue st else bot_queue st))"
  by (auto simp: get_messages_find find_Some_iff split: option.splits)

lemma get_messages_in_queue_mono:
  "in_queue (scheduler (snd (get_messages pname message_type n st)) k) \<Longrightarrow> in_queue (scheduler st k)"
  by (auto simp: get_messages_find update_queue_status_def split: option.splits if_splits)

lemma handles_on_same_url:
  assumes "\<forall>m \<in> set ms. queue_url m = url"
  shows "handles_on url ms = receipt_handle ` set ms"
  using assms by (auto simp: handles_on_def)

lemma handles_on_other_url:
  assumes "\<forall>m \<in> set ms. queue_url m = url" and "url' \<noteq> url"
  shows "handles_on url' ms = {}"
  using assms by (auto simp: handles_on_def)

text \<open>
  C10, as the code has it: \<^verbatim>\<open>reset\<close> receives once from the bot queue and once from the
  standard queue, with at most ten entries each. The entries that these two receives put
  into their batches are deleted from their queues and have \<^verbatim>\<open>inQueue\<close> false afterwards;
  every other entry stays in its queue.
\<close>

theorem C10_reset_one_receive_per_queue:
  assumes consistent: "queues_consistent st"
    and bot_batch: "bot_batch = sqs_msgs (snd (get_messages [] ''Bot'' 10 st))"
    and std_batch: "std_batch =
          sqs_msgs (snd (get_messages [] ''Message'' 10
            (delete_sqs_msgs (fail_messages False (snd (get_messages [] ''Bot'' 10 st))))))"
  shows "set bot_batch \<subseteq> set (receive_messages 10 (bot_queue st))
     \<and> set std_batch \<subseteq> set (receive_messages 10 (queue st))
     \<and> bot_queue (reset st)
         = filter (\<lambda>e. receipt_handle e \<notin> receipt_handle ` set bot_batch) (bot_queue st)
     \<and> queue (reset st)
         = filter (\<lambda>e. receipt_handle e \<notin> receipt_handle ` set std_batch) (queue st)
     \<and> (\<forall>m \<in> set bot_batch \<union> set std_batch. \<not> in_queue (scheduler (reset st) (key_of m)))"
proof -
  define st1 where "st1 = snd (get_messages [] ''Bot'' 10 st)"
  define st2 where "st2 = fail_messages False st1"
  define st3 where "st3 = delete_sqs_msgs st2"
  define st4 where "st4 = snd (get_messages [] ''Message'' 10 st3)"
  define st5 where "st5 = fail_messages False st4"
  have reset_eq: "reset st = delete_sqs_msgs st5"
    by (simp add: reset_def Let_def st1_def st2_def st3_def st4_def st5_def)
  have b1: "sqs_msgs st1 = bot_batch"
    by (simp add: st1_def bot_batch)
  have b2: "sqs_msgs st4 = std_batch"
    by (simp add: st4_def st3_def st2_def st1_def std_batch)

  have sub1: "set bot_batch \<subseteq> set (receive_messages 10 (bot_queue st))"
    using get_messages_batch_subset [of "[]" "''Bot''" 10 st] by (simp add: bot_batch)
  then have "set bot_batch \<subseteq> set (bot_queue st)"
    using set_take_subset by (fastforce simp: receive_messages_def)
  with consistent have url1: "\<forall>m \<in> set bot_batch. queue_url m = BotQueue"
    by (auto simp: queues_consistent_def list_all_iff)

  have q1: "queue st1 = queue st" and bq1: "bot_queue st1 = bot_queue st"
    by (simp_all add: st1_def get_messages_frame)
  have q2: "queue st2 = queue st"
    by (simp add: st2_def fail_messages_fields b1 q1 handles_on_other_url [OF url1])
  have bq2: "bot_queue st2
      = filter (\<lambda>e. receipt_handle e \<notin> receipt_handle ` set bot_batch) (bot_queue st)"
    by (simp add: st2_def fail_messages_fields b1 bq1 handles_on_same_url [OF url1])
  have m2: "sqs_msgs st2 = bot_batch"
    by (simp add: st2_def fail_messages_fields b1)
  have q3: "queue st3 = queue st"
    by (simp add: st3_def delete_sqs_msgs_fields m2 q2 handles_on_other_url [OF url1])
  have bq3: "bot_queue st3
      = filter (\<lambda>e. receipt_handle e \<notin> receipt_handle ` set bot_batch) (bot_queue st)"
    by (simp add: st3_def delete_sqs_msgs_fields m2 bq2 handles_on_same_url [OF url1])

  have sub2: "set std_batch \<subseteq> set (receive_messages 10 (queue st))"
    using get_messages_batch_subset [of "[]" "''Message''" 10 st3] by (simp add: b2 [symmetric] st4_def q3)
  then have "set std_batch \<subseteq> set (queue st)"
    using set_take_subset by (fastforce simp: receive_messages_def)
  with consistent have url2: "\<forall>m \<in> set std_batch. queue_url m = MessageQueue"
    by (auto simp: queues_consistent_def list_all_iff)

  have q4: "queue st4 = queue st" and bq4: "bot_queue st4 = bot_queue st3"
    by (simp_all add: st4_def get_messages_frame q3)
  have q5: "queue st5
      = filter (\<lambda>e. receipt_handle e \<notin> receipt_handle ` set std_batch) (queue st)"
    by (simp add: st5_def fail_messages_fields b2 q4 handles_on_same_url [OF url2])
  have bq5: "bot_queue st5 = bot_queue st3"
    by (simp add: st5_def fail_messages_fields b2 bq4 handles_on_other_url [OF url2])
  have m5: "sqs_msgs st5 = std_batch"
    by (simp add: st5_def fail_messages_fields b2)
  have q6: "queue (reset st)
      = filter (\<lambda>e. receipt_handle e \<notin> receipt_handle ` set std_batch) (queue st)"
    by (simp add: reset_eq delete_sqs_msgs_fields m5 q5 handles_on_same_url [OF url2])
  have bq6: "bot_queue (reset st)
      = filter (\<lambda>e. receipt_handle e \<notin> receipt_handle ` set bot_batch) (bot_queue st)"
    by (simp add: reset_eq delete_sqs_msgs_fields m5 bq5 bq3 handles_on_other_url [OF url2])

  have failed: "\<not> in_queue (scheduler (reset st) (key_of m))"
    if "m \<in> set bot_batch \<union> set std_batch" for m
  proof (cases "m \<in> set std_batch")
    case True
    then show ?thesis
      by (simp add: reset_eq delete_sqs_msgs_fields st5_def fail_messages_fields b2)
  next
    case False
    with that have "m \<in> set bot_batch"
      by simp
    then have "\<not> in_queue (scheduler st3 (key_of m))"
      by (simp add: st3_def delete_sqs_msgs_fields st2_def fail_messages_fields b1)
    then have "\<not> in_queue (scheduler st4 (key_of m))"
      unfolding st4_def using get_messages_in_queue_mono by blast
    then show ?thesis
      by (simp add: reset_eq delete_sqs_msgs_fields st5_def fail_messages_fields)
  qed
  from sub1 sub2 bq6 q6 failed show ?thesis
    by blast
qed

lemma backlog_consistent: "queues_consistent backlog"
  by (simp add: queues_consistent_def backlog_def new_manager_def backlog_entry_def entry_def)

lemma backlog_batches:
  "sqs_msgs (snd (get_messages [] ''Bot'' 10 backlog)) = []"
  "sqs_msgs (snd (get_messages [] ''Message'' 10
     (delete_sqs_msgs (fail_messages False (snd (get_messages [] ''Bot'' 10 backlog))))))
   = [backlog_entry CHR ''a'']"
  by (simp_all add: backlog_def new_manager_def run_defs resolve_defs)

theorem C10_reset_one_receive_per_queue_witness:
  "queue (reset backlog) = map backlog_entry ''bcdefghijk''
   \<and> \<not> in_queue (scheduler (reset backlog) (key_of (backlog_entry CHR ''a'')))"
proof -
  have "queue (reset backlog)
          = filter (\<lambda>e. receipt_handle e \<notin> receipt_handle ` set [backlog_entry CHR ''a''])
              (queue backlog)
        \<and> (\<forall>m \<in> set [] \<union> set [backlog_entry CHR ''a''].
              \<not> in_queue (scheduler (reset backlog) (key_of m)))"
    using C10_reset_one_receive_per_queue [OF backlog_consistent,
        of "[]" "[backlog_entry CHR ''a'']"]
    by (simp only: backlog_batches) blast
  then show ?thesis
    by (simp add: backlog_def new_manager_def backlog_entry_def entry_def)
qed

text \<open>
  C10 as stated fails: of eleven entries in the standard queue, ten are still there after
  \<^verbatim>\<open>reset\<close>. There is no loop in \<^verbatim>\<open>reset\<close>, and one receive hands out ten entries at
  most.
\<close>

theorem C10_reset_drains_queue_counterexample:
  "queue backlog = map backlog_entry ''abcdefghijk''
   \<and> queue (reset backlog) = map backlog_entry ''bcdefghijk''"
  by (simp add: reset_def backlog_def new_manager_def run_defs resolve_defs backlog_entry_def entry_def)

end
